theory Spec2Isabelle
  imports Complex_Main
begin

section \<open>ADSR envelopes of music/core/filters/adsr.py\<close>

text \<open>
  The samples are Python and numpy floats; here they are real numbers, so every
  statement below is about the arithmetic the code asks for, not about rounding
  in the last bit of a double. Integers that the code keeps as Python \<open>int\<close>
  (lengths, sample counts, the sample rate) are of type \<open>int\<close>.
\<close>

subsection \<open>Values and errors\<close>

text \<open>
  The exceptions the code can raise. \<open>NegativeDimensions\<close> and \<open>ShapeMismatch\<close>
  are both numpy's \<open>ValueError\<close>: the first from \<open>np.ones\<close> of a negative count,
  the second from broadcasting or stacking arrays of different lengths.
  \<open>NotModelled\<close> is raised by no code: it is the answer of the reference
  generators below outside the part of them that the spec determines.
\<close>

datatype error =
    ZeroDivisionError
  | TypeError
  | NegativeDimensions
  | ShapeMismatch
  | IndexError
  | NotModelled

text \<open>
  \<open>alpha\<close>, \<open>db_dev\<close> and \<open>to_zero\<close> are documented as "scalar or array_like":
  a Python number, a Python list, or a numpy array.
\<close>

datatype param = Scalar real | PyList "real list" | NdArray "real list"

text \<open>
  An entry of a numpy array after a division: numpy does not raise on a division
  by zero, it warns and stores \<open>inf\<close>, \<open>-inf\<close> or \<open>nan\<close>. Which of the three
  depends on signs (that of a float zero too), which a real number does not
  carry, so the three are one value here.
\<close>

datatype xreal = Finite real | NonFinite

datatype perc = PercScalar real | PercArray "xreal list"

text \<open>
  \<open>sonic_vector\<close>: the code tests \<open>type(sonic_vector) in (np.ndarray, list)\<close>.
  Anything else (the default \<open>0\<close>, any scalar) means that no signal was given.
\<close>

datatype signal_arg = NoSignal | Signal "real list"

text \<open>
  The argument of \<open>adsr_stereo\<close>: a scalar, or a list or array, whose entries
  \<open>sonic_vector[0]\<close> and \<open>sonic_vector[1]\<close> are again scalars or sequences.
\<close>

datatype stereo_arg = StereoNone | StereoRows "signal_arg list"

text \<open>The keyword parameters of \<open>adsr\<close> other than \<open>sonic_vector\<close>.\<close>

record config =
  envelope_duration :: real
  attack_duration :: real
  decay_duration :: real
  sustain_level :: real
  release_duration :: real
  transition :: string
  alpha :: param
  db_dev :: param
  to_zero :: param
  number_of_samples :: int
  sample_rate :: int

text \<open>The defaults of the signature of \<open>adsr\<close>.\<close>

definition default_config :: config where
  "default_config =
     \<lparr>envelope_duration = 2, attack_duration = 20, decay_duration = 20,
      sustain_level = -5, release_duration = 50, transition = ''exp'',
      alpha = Scalar 1, db_dev = Scalar (-80), to_zero = Scalar 1,
      number_of_samples = 0, sample_rate = 44100\<rparr>"

subsection \<open>The generators that adsr calls\<close>

text \<open>
  \<open>fade\<close> and \<open>loud\<close> are imported from \<open>.fade\<close> and \<open>.loud\<close>, which are not
  among the sources. They are parameters of the model, with the arguments the
  calls in \<open>adsr\<close> pass: \<open>fade(fade_out, method, alpha, dB, perc,
  number_of_samples)\<close> and \<open>loud(trans_dev, method, alpha, number_of_samples)\<close>.
  The attack call passes \<open>fade_out=0\<close>, the release call leaves \<open>fade_out\<close> out
  (\<open>None\<close> here: the default of \<open>fade\<close> applies). A generator returns a
  one-dimensional array or raises.
\<close>

record generators =
  fade :: "int option \<Rightarrow> string \<Rightarrow> param \<Rightarrow> param \<Rightarrow> perc \<Rightarrow> int \<Rightarrow> error + real list"
  loud :: "real \<Rightarrow> string \<Rightarrow> param \<Rightarrow> int \<Rightarrow> error + real list"

text \<open>
  Modelled from the spec: the contract of the missing \<open>fade\<close> and \<open>loud\<close>
  (sections 4.1 and 4.2): given a target sample count \<open>N \<ge> 0\<close>, a generator
  produces a sequence of \<open>N\<close> values. The contract is stated for one transition
  family \<open>m\<close> and is silent on \<open>N < 0\<close>.
\<close>

definition returns_requested :: "generators \<Rightarrow> string \<Rightarrow> bool" where
  "returns_requested G m \<longleftrightarrow>
     (\<forall>fo a d p n. 0 \<le> n \<longrightarrow> (\<exists>xs. fade G fo m a d p n = Inr xs \<and> int (length xs) = n)) \<and>
     (\<forall>dev a n. 0 \<le> n \<longrightarrow> (\<exists>xs. loud G dev m a n = Inr xs \<and> int (length xs) = n))"

text \<open>
  Modelled from the spec: \<open>n\<close> evenly spaced values from \<open>a\<close> to \<open>b\<close>, both ends
  included (section 4.1, linear mode). With \<open>n = 1\<close> the only value is \<open>a\<close>
  (the quotient by \<open>n - 1 = 0\<close> is \<open>0\<close> in HOL, which gives just that).
\<close>

definition linspace :: "real \<Rightarrow> real \<Rightarrow> nat \<Rightarrow> real list" where
  "linspace a b n = map (\<lambda>i. a + (b - a) * (real i / real (n - 1))) [0..<n]"

text \<open>
  Modelled from the spec: the missing \<open>fade\<close> in its linear family (section 4.1:
  evenly spaced values from 0 to 1, or the reverse, \<open>N\<close> of them, \<open>N = 0\<close> giving
  the empty sequence; the shape exponent is ignored, and by the docstring of
  \<open>adsr\<close> so are \<open>db_dev\<close> and \<open>to_zero\<close>). A call that leaves \<open>fade_out\<close> to its
  default is a fade-out (section 4.3, step 6). The exponential family and
  negative counts are not determined by the spec.
\<close>

definition fade_linear ::
  "int option \<Rightarrow> string \<Rightarrow> param \<Rightarrow> param \<Rightarrow> perc \<Rightarrow> int \<Rightarrow> error + real list" where
  "fade_linear fade_out method al dB pc n =
     (if method = ''linear'' \<and> 0 \<le> n then
        (if fade_out = Some 0 then Inr (linspace 0 1 (nat n))
         else Inr (linspace 1 0 (nat n)))
      else Inl NotModelled)"

text \<open>
  Modelled from the spec: the missing \<open>loud\<close> in its linear family (section 4.2:
  \<open>N\<close> values from amplitude 1.0 toward amplitude \<open>10^(deviation/20)\<close>).
\<close>

definition loud_linear :: "real \<Rightarrow> string \<Rightarrow> param \<Rightarrow> int \<Rightarrow> error + real list" where
  "loud_linear trans_dev method al n =
     (if method = ''linear'' \<and> 0 \<le> n then Inr (linspace 1 (10 powr (trans_dev / 20)) (nat n))
      else Inl NotModelled)"

definition linear_generators :: generators where
  "linear_generators = \<lparr>fade = fade_linear, loud = loud_linear\<rparr>"

subsection \<open>Python and numpy primitives\<close>

text \<open>
  One statement after another: when the first raises, the error is the result
  and the rest does not run.
\<close>

definition on_return :: "error + 'a \<Rightarrow> ('a \<Rightarrow> error + 'b) \<Rightarrow> error + 'b" where
  "on_return m f = (case m of Inl e \<Rightarrow> Inl e | Inr x \<Rightarrow> f x)"

text \<open>\<open>int(x)\<close> of a float: truncation toward zero.\<close>

definition py_int :: "real \<Rightarrow> int" where
  "py_int x = (if 0 \<le> x then \<lfloor>x\<rfloor> else \<lceil>x\<rceil>)"

text \<open>
  \<open>to_zero / duration\<close>, the duration being a Python number: a number divided by
  zero raises, a list has no division, an array is divided entry by entry and
  does not raise.
\<close>

definition py_truediv :: "param \<Rightarrow> real \<Rightarrow> error + perc" where
  "py_truediv x d =
     (case x of
        Scalar t \<Rightarrow> if d = 0 then Inl ZeroDivisionError else Inr (PercScalar (t / d))
      | PyList ts \<Rightarrow> Inl TypeError
      | NdArray ts \<Rightarrow>
          Inr (PercArray (map (\<lambda>t. if d = 0 then NonFinite else Finite (t / d)) ts)))"

text \<open>\<open>np.ones(k)\<close> for a Python integer \<open>k\<close>.\<close>

definition np_ones :: "int \<Rightarrow> error + real list" where
  "np_ones k = (if k < 0 then Inl NegativeDimensions else Inr (replicate (nat k) 1))"

text \<open>
  The product \<open>x * y\<close> of two one-dimensional arrays (or of a list of numbers
  and an array), with numpy's broadcasting: equal lengths, or one of length 1.
\<close>

definition np_mul :: "real list \<Rightarrow> real list \<Rightarrow> error + real list" where
  "np_mul xs ys =
     (if length xs = length ys then Inr (map2 (*) xs ys)
      else if length xs = 1 then Inr (map (\<lambda>y. hd xs * y) ys)
      else if length ys = 1 then Inr (map (\<lambda>x. x * hd ys) xs)
      else Inl ShapeMismatch)"

text \<open>\<open>np.vstack((s1, s2))\<close> of two one-dimensional arrays.\<close>

definition np_vstack2 :: "real list \<Rightarrow> real list \<Rightarrow> error + real list list" where
  "np_vstack2 s1 s2 = (if length s1 = length s2 then Inr [s1, s2] else Inl ShapeMismatch)"

subsection \<open>adsr\<close>

text \<open>Lines 93 to 101: the total length and the three segment lengths.\<close>

definition Lambda :: "config \<Rightarrow> signal_arg \<Rightarrow> int" where
  "Lambda c sv =
     (case sv of
        Signal s \<Rightarrow> int (length s)
      | NoSignal \<Rightarrow>
          if number_of_samples c \<noteq> 0 then number_of_samples c
          else py_int (envelope_duration c * real_of_int (sample_rate c)))"

definition Lambda_A :: "config \<Rightarrow> int" where
  "Lambda_A c = py_int (attack_duration c * real_of_int (sample_rate c) * 0.001)"

definition Lambda_D :: "config \<Rightarrow> int" where
  "Lambda_D c = py_int (decay_duration c * real_of_int (sample_rate c) * 0.001)"

definition Lambda_R :: "config \<Rightarrow> int" where
  "Lambda_R c = py_int (release_duration c * real_of_int (sample_rate c) * 0.001)"

text \<open>Line 108: the sustain amplitude.\<close>

definition a_S :: "config \<Rightarrow> real" where
  "a_S c = 10 powr (sustain_level c / 20)"

text \<open>
  Lines 103 to 114: the array \<open>AD\<close>, in the order of the statements of the
  source, each of which can raise.
\<close>

definition adsr_envelope :: "generators \<Rightarrow> config \<Rightarrow> signal_arg \<Rightarrow> error + real list" where
  "adsr_envelope G c sv =
     on_return (py_truediv (to_zero c) (attack_duration c)) (\<lambda>pA.
     on_return (fade G (Some 0) (transition c) (alpha c) (db_dev c) pA (Lambda_A c)) (\<lambda>att.
     on_return (loud G (sustain_level c) (transition c) (alpha c) (Lambda_D c)) (\<lambda>dec.
     on_return (np_ones (Lambda c sv - (Lambda_A c + Lambda_R c + Lambda_D c))) (\<lambda>ones.
     on_return (py_truediv (to_zero c) (release_duration c)) (\<lambda>pR.
     on_return (fade G None (transition c) (alpha c) (db_dev c) pR (Lambda_R c)) (\<lambda>rel.
     Inr (att @ dec @ map (\<lambda>x. x * a_S c) ones @ map (\<lambda>x. x * a_S c) rel)))))))"

text \<open>Lines 115 to 118: the envelope, or the signal times the envelope.\<close>

definition adsr :: "generators \<Rightarrow> config \<Rightarrow> signal_arg \<Rightarrow> error + real list" where
  "adsr G c sv =
     on_return (adsr_envelope G c sv) (\<lambda>AD.
     case sv of Signal s \<Rightarrow> np_mul s AD | NoSignal \<Rightarrow> Inr AD)"

subsection \<open>adsr_stereo\<close>

text \<open>
  \<open>adsr_stereo\<close> has the parameters of \<open>adsr\<close>, with \<open>duration\<close> for
  \<open>envelope_duration\<close>. Indexing a sequence of fewer than two entries raises.
\<close>

definition stereo_rows :: "stereo_arg \<Rightarrow> error + signal_arg \<times> signal_arg" where
  "stereo_rows ssv =
     (case ssv of
        StereoRows rows \<Rightarrow>
          if 2 \<le> length rows then Inr (rows ! 0, rows ! 1) else Inl IndexError
      | StereoNone \<Rightarrow> Inr (NoSignal, NoSignal))"

definition adsr_stereo ::
  "generators \<Rightarrow> config \<Rightarrow> stereo_arg \<Rightarrow> error + real list list" where
  "adsr_stereo G c ssv =
     on_return (stereo_rows ssv) (\<lambda>(sonic_vector1, sonic_vector2).
     on_return (adsr G c sonic_vector1) (\<lambda>s1.
     on_return (adsr G c sonic_vector2) (\<lambda>s2.
     np_vstack2 s1 s2)))"

subsection \<open>Vocabulary of the statements\<close>

text \<open>A Python list has no division by a number; a number and an array have one.\<close>

fun is_py_list :: "param \<Rightarrow> bool" where
  "is_py_list (PyList ts) = True"
| "is_py_list (Scalar t) = False"
| "is_py_list (NdArray ts) = False"

text \<open>
  \<open>k\<close> is \<open>x\<close> with its fraction dropped: as close to \<open>x\<close> as an integer between
  0 and \<open>x\<close> can be.
\<close>

definition truncation_of :: "real \<Rightarrow> int \<Rightarrow> bool" where
  "truncation_of x k \<longleftrightarrow>
     \<bar>real_of_int k\<bar> \<le> \<bar>x\<bar> \<and> \<bar>x\<bar> < \<bar>real_of_int k\<bar> + 1 \<and> 0 \<le> real_of_int k * x"

text \<open>Two one-dimensional shapes that numpy broadcasts against each other.\<close>

definition broadcastable :: "nat \<Rightarrow> nat \<Rightarrow> bool" where
  "broadcastable m n \<longleftrightarrow> m = n \<or> m = 1 \<or> n = 1"

subsection \<open>Inputs of the examples\<close>

text \<open>
  A short envelope in the linear family: 10 samples at 1000 Hz, of which 2 each
  for attack, decay and release, and the envelope it has with the linear
  generators.
\<close>

definition small_config :: config where
  "small_config = default_config\<lparr>envelope_duration := 1 / 100, attack_duration := 2,
     decay_duration := 2, release_duration := 2, transition := ''linear'', sample_rate := 1000\<rparr>"

definition small_envelope :: "real list" where
  "small_envelope = [0, 1] @ [1, 10 powr - (1 / 4)] @ replicate 4 (10 powr - (1 / 4)) @
     [10 powr - (1 / 4), 0]"

text \<open>
  The configuration named in section 8, property 6: three segments of 3000 ms in
  an envelope of one second.
\<close>

definition overlong_config :: config where
  "overlong_config = default_config\<lparr>envelope_duration := 1, attack_duration := 3000,
     decay_duration := 3000, release_duration := 3000\<rparr>"

text \<open>Half a second at 1 Hz: every length truncates to zero.\<close>

definition zero_length_config :: config where
  "zero_length_config = default_config\<lparr>envelope_duration := 1 / 2, transition := ''linear'',
     sample_rate := 1\<rparr>"

text \<open>Two signals of ten samples.\<close>

definition ramp_signal :: "real list" where
  "ramp_signal = [1, 2, 3, 4, 5, 6, 7, 8, 9, 10]"

definition falling_signal :: "real list" where "falling_signal = [10, 9, 8, 7, 6, 5, 4, 3, 2, 1]"

section \<open>Properties\<close>

subsection \<open>Auxiliary facts\<close>

lemmas config_evals =
  default_config_def small_config_def Lambda_def Lambda_A_def Lambda_D_def Lambda_R_def
  py_int_def

lemmas adsr_evals =
  adsr_def adsr_envelope_def on_return_def py_truediv_def np_ones_def np_mul_def a_S_def
  linear_generators_def fade_linear_def loud_linear_def linspace_def upt_conv_Cons

lemma on_return_Inr_iff:
  "on_return m f = Inr y \<longleftrightarrow> (\<exists>x. m = Inr x \<and> f x = Inr y)"
  by (cases m) (simp_all add: on_return_def)

lemma on_return_Inl_iff:
  "on_return m f = Inl e \<longleftrightarrow> m = Inl e \<or> (\<exists>x. m = Inr x \<and> f x = Inl e)"
  by (cases m) (simp_all add: on_return_def)

lemma np_ones_Inr_iff:
  "np_ones k = Inr xs \<longleftrightarrow> 0 \<le> k \<and> xs = replicate (nat k) 1"
  by (auto simp: np_ones_def)

lemma adsr_envelope_Inr_iff:
  "adsr_envelope G c sv = Inr AD \<longleftrightarrow>
     (\<exists>pA att dec pR rel.
        py_truediv (to_zero c) (attack_duration c) = Inr pA \<and>
        fade G (Some 0) (transition c) (alpha c) (db_dev c) pA (Lambda_A c) = Inr att \<and>
        loud G (sustain_level c) (transition c) (alpha c) (Lambda_D c) = Inr dec \<and>
        Lambda_A c + Lambda_R c + Lambda_D c \<le> Lambda c sv \<and>
        py_truediv (to_zero c) (release_duration c) = Inr pR \<and>
        fade G None (transition c) (alpha c) (db_dev c) pR (Lambda_R c) = Inr rel \<and>
        AD = att @ dec @
             replicate (nat (Lambda c sv - (Lambda_A c + Lambda_R c + Lambda_D c))) (a_S c) @
             map (\<lambda>x. x * a_S c) rel)"
  unfolding adsr_envelope_def on_return_Inr_iff np_ones_Inr_iff
  by (auto simp: map_replicate)

lemma py_truediv_returns:
  "\<not> is_py_list x \<Longrightarrow> (\<forall>t. x = Scalar t \<longrightarrow> d \<noteq> 0) \<Longrightarrow> \<exists>p. py_truediv x d = Inr p"
  by (cases x) (simp_all add: py_truediv_def)

lemma np_mul_same_length:
  "length xs = length ys \<Longrightarrow> np_mul xs ys = Inr (map2 (*) xs ys)"
  by (simp add: np_mul_def)

lemma np_mul_returns_iff: "(\<exists>r. np_mul xs ys = Inr r) \<longleftrightarrow> broadcastable (length xs) (length ys)"
  by (auto simp: np_mul_def broadcastable_def)

lemma np_mul_length:
  "np_mul xs ys = Inr r \<Longrightarrow> np_mul xs' ys = Inr r' \<Longrightarrow> length xs = length xs' \<Longrightarrow>
     length r = length r'"
  by (auto simp: np_mul_def split: if_splits)

lemma py_int_truncation: "truncation_of x (py_int x)"
proof (cases "0 \<le> x")
  case True
  then have "0 \<le> \<lfloor>x\<rfloor>" by simp
  moreover have "real_of_int \<lfloor>x\<rfloor> \<le> x" "x < real_of_int \<lfloor>x\<rfloor> + 1" by linarith+
  ultimately show ?thesis
    using True by (simp add: truncation_of_def py_int_def)
next
  case False
  then have "\<lceil>x\<rceil> \<le> 0" by (simp add: ceiling_le_iff)
  moreover have "x \<le> real_of_int \<lceil>x\<rceil>" "real_of_int \<lceil>x\<rceil> - 1 < x" by linarith+
  ultimately show ?thesis
    using False by (simp add: truncation_of_def py_int_def mult_nonpos_nonpos)
qed

lemma truncation_unique:
  assumes "truncation_of x k"
  shows "k = py_int x"
proof (cases "0 \<le> x")
  case True
  have "0 \<le> k"
  proof (rule ccontr)
    assume "\<not> 0 \<le> k"
    then have k: "real_of_int k \<le> - 1" by linarith
    with assms have "\<bar>x\<bar> \<ge> 1" by (simp add: truncation_of_def)
    with True have "0 < x" by simp
    with k have "real_of_int k * x < 0" by (simp add: mult_neg_pos)
    with assms show False by (simp add: truncation_of_def)
  qed
  with assms True have "real_of_int k \<le> x" "x < real_of_int k + 1"
    by (simp_all add: truncation_of_def)
  then have "\<lfloor>x\<rfloor> = k" by (simp add: floor_unique)
  with True show ?thesis by (simp add: py_int_def)
next
  case False
  have "k \<le> 0"
  proof (rule ccontr)
    assume "\<not> k \<le> 0"
    then have "0 < real_of_int k" by simp
    with False have "real_of_int k * x < 0" by (simp add: mult_pos_neg)
    with assms show False by (simp add: truncation_of_def)
  qed
  with assms False have "x \<le> real_of_int k" "real_of_int k - 1 < x"
    by (simp_all add: truncation_of_def)
  then have "\<lceil>x\<rceil> = k" by (simp add: ceiling_unique)
  with False show ?thesis by (simp add: py_int_def)
qed

lemma linspace_length: "length (linspace a b n) = n"
  by (simp add: linspace_def)

lemma linear_generators_return_requested: "returns_requested linear_generators ''linear''"
  by (simp add: returns_requested_def linear_generators_def fade_linear_def loud_linear_def
      linspace_length)

lemma requested_segments:
  assumes "returns_requested G (transition c)"
    and "0 \<le> Lambda_A c" "0 \<le> Lambda_D c" "0 \<le> Lambda_R c"
  shows "\<exists>att dec rel.
      fade G (Some 0) (transition c) (alpha c) (db_dev c) pA (Lambda_A c) = Inr att \<and>
      int (length att) = Lambda_A c \<and>
      loud G (sustain_level c) (transition c) (alpha c) (Lambda_D c) = Inr dec \<and>
      int (length dec) = Lambda_D c \<and>
      fade G None (transition c) (alpha c) (db_dev c) pR (Lambda_R c) = Inr rel \<and>
      int (length rel) = Lambda_R c"
  using assms unfolding returns_requested_def by metis

lemma valid_envelope:
  assumes "returns_requested G (transition c)"
    and "attack_duration c \<noteq> 0" and "release_duration c \<noteq> 0"
    and "\<not> is_py_list (to_zero c)"
    and "0 \<le> Lambda_A c" and "0 \<le> Lambda_D c" and "0 \<le> Lambda_R c"
    and "Lambda_A c + Lambda_D c + Lambda_R c \<le> Lambda c sv"
  shows "\<exists>pA pR att dec rel.
      py_truediv (to_zero c) (attack_duration c) = Inr pA \<and>
      py_truediv (to_zero c) (release_duration c) = Inr pR \<and>
      fade G (Some 0) (transition c) (alpha c) (db_dev c) pA (Lambda_A c) = Inr att \<and>
      int (length att) = Lambda_A c \<and>
      loud G (sustain_level c) (transition c) (alpha c) (Lambda_D c) = Inr dec \<and>
      int (length dec) = Lambda_D c \<and>
      fade G None (transition c) (alpha c) (db_dev c) pR (Lambda_R c) = Inr rel \<and>
      int (length rel) = Lambda_R c \<and>
      adsr_envelope G c sv = Inr (att @ dec @
           replicate (nat (Lambda c sv - Lambda_A c - Lambda_D c - Lambda_R c)) (a_S c) @
           map (\<lambda>x. x * a_S c) rel)"
proof -
  obtain pA where pA: "py_truediv (to_zero c) (attack_duration c) = Inr pA"
    using py_truediv_returns [of "to_zero c" "attack_duration c"] assms(2,4) by auto
  obtain pR where pR: "py_truediv (to_zero c) (release_duration c) = Inr pR"
    using py_truediv_returns [of "to_zero c" "release_duration c"] assms(3,4) by auto
  obtain att dec rel where
    att: "fade G (Some 0) (transition c) (alpha c) (db_dev c) pA (Lambda_A c) = Inr att"
      "int (length att) = Lambda_A c" and
    dec: "loud G (sustain_level c) (transition c) (alpha c) (Lambda_D c) = Inr dec"
      "int (length dec) = Lambda_D c" and
    rel: "fade G None (transition c) (alpha c) (db_dev c) pR (Lambda_R c) = Inr rel"
      "int (length rel) = Lambda_R c"
    using requested_segments [OF assms(1,5,6,7), of pA pR] by blast
  have rem: "Lambda c sv - (Lambda_A c + Lambda_R c + Lambda_D c)
      = Lambda c sv - Lambda_A c - Lambda_D c - Lambda_R c"
    by simp
  have "adsr_envelope G c sv = Inr (att @ dec @
           replicate (nat (Lambda c sv - Lambda_A c - Lambda_D c - Lambda_R c)) (a_S c) @
           map (\<lambda>x. x * a_S c) rel)"
    unfolding adsr_envelope_Inr_iff rem
    using pA pR att(1) dec(1) rel(1) assms(8) by auto
  with pA pR att dec rel show ?thesis by blast
qed

lemma envelope_length:
  assumes "returns_requested G (transition c)"
    and "0 \<le> Lambda_A c" "0 \<le> Lambda_D c" "0 \<le> Lambda_R c"
    and "adsr_envelope G c sv = Inr AD"
  shows "int (length AD) = Lambda c sv"
proof -
  from assms(5) obtain pA att dec pR rel where
    att: "fade G (Some 0) (transition c) (alpha c) (db_dev c) pA (Lambda_A c) = Inr att" and
    dec: "loud G (sustain_level c) (transition c) (alpha c) (Lambda_D c) = Inr dec" and
    le: "Lambda_A c + Lambda_R c + Lambda_D c \<le> Lambda c sv" and
    rel: "fade G None (transition c) (alpha c) (db_dev c) pR (Lambda_R c) = Inr rel" and
    AD: "AD = att @ dec @
         replicate (nat (Lambda c sv - (Lambda_A c + Lambda_R c + Lambda_D c))) (a_S c) @
         map (\<lambda>x. x * a_S c) rel"
    unfolding adsr_envelope_Inr_iff by blast
  from requested_segments [OF assms(1-4), of pA pR] att dec rel
  have "int (length att) = Lambda_A c" "int (length dec) = Lambda_D c"
    "int (length rel) = Lambda_R c"
    by auto
  with le show ?thesis by (simp add: AD)
qed

lemma envelope_of_signal_length:
  "s \<noteq> [] \<Longrightarrow>
     adsr_envelope G (c\<lparr>number_of_samples := int (length s)\<rparr>) NoSignal
       = adsr_envelope G c (Signal s)"
  by (simp add: adsr_envelope_def Lambda_def Lambda_A_def Lambda_D_def Lambda_R_def a_S_def)

lemma envelope_same_length:
  "length s1 = length s2 \<Longrightarrow> adsr_envelope G c (Signal s1) = adsr_envelope G c (Signal s2)"
  by (simp add: adsr_envelope_def Lambda_def)

lemma adsr_same_length:
  assumes "length s1 = length s2"
    and "adsr G c (Signal s1) = Inr r1" and "adsr G c (Signal s2) = Inr r2"
  shows "length r1 = length r2"
proof -
  from assms(2) obtain AD where
    AD: "adsr_envelope G c (Signal s1) = Inr AD" and r1: "np_mul s1 AD = Inr r1"
    by (auto simp: adsr_def on_return_Inr_iff)
  from envelope_same_length [OF assms(1), of G c] AD
  have "adsr_envelope G c (Signal s2) = Inr AD"
    by simp
  with assms(3) have r2: "np_mul s2 AD = Inr r2"
    by (simp add: adsr_def on_return_def)
  from r1 r2 assms(1) show ?thesis by (rule np_mul_length)
qed

subsection \<open>The assembled envelope\<close>

text \<open>
  Claim C1, as the code has it. That the sample counts sum to at most \<open>Lambda\<close>
  is not enough for a buffer to come back: \<open>to_zero / attack_duration\<close> and
  \<open>to_zero / release_duration\<close> must not raise, and the generators must return
  what they are asked for, which their contract promises for counts that are not
  negative. Then \<open>adsr\<close> returns a buffer of length exactly \<open>Lambda\<close>: the
  envelope is the attack segment, the decay segment, \<open>Lambda\<close> minus the three
  counts copies of \<open>10^(sustain_level/20)\<close>, and the release segment, in that
  order, and the result is that envelope, or the signal times it.
\<close>

theorem adsr_valid_concatenation:
  assumes "returns_requested G (transition c)"
    and "attack_duration c \<noteq> 0" and "release_duration c \<noteq> 0"
    and "\<not> is_py_list (to_zero c)"
    and "0 \<le> Lambda_A c" and "0 \<le> Lambda_D c" and "0 \<le> Lambda_R c"
    and "Lambda_A c + Lambda_D c + Lambda_R c \<le> Lambda c sv"
  shows "\<exists>pA pR att dec rel AD.
      py_truediv (to_zero c) (attack_duration c) = Inr pA \<and>
      py_truediv (to_zero c) (release_duration c) = Inr pR \<and>
      fade G (Some 0) (transition c) (alpha c) (db_dev c) pA (Lambda_A c) = Inr att \<and>
      int (length att) = Lambda_A c \<and>
      loud G (sustain_level c) (transition c) (alpha c) (Lambda_D c) = Inr dec \<and>
      int (length dec) = Lambda_D c \<and>
      fade G None (transition c) (alpha c) (db_dev c) pR (Lambda_R c) = Inr rel \<and>
      int (length rel) = Lambda_R c \<and>
      AD = att @ dec @
           replicate (nat (Lambda c sv - Lambda_A c - Lambda_D c - Lambda_R c))
             (10 powr (sustain_level c / 20)) @
           map (\<lambda>x. x * 10 powr (sustain_level c / 20)) rel \<and>
      int (length AD) = Lambda c sv \<and>
      adsr G c sv = (case sv of NoSignal \<Rightarrow> Inr AD | Signal s \<Rightarrow> Inr (map2 (*) s AD)) \<and>
      (\<forall>r. adsr G c sv = Inr r \<longrightarrow> int (length r) = Lambda c sv)"
proof -
  from valid_envelope [OF assms] obtain pA pR att dec rel where
    parts: "py_truediv (to_zero c) (attack_duration c) = Inr pA"
      "py_truediv (to_zero c) (release_duration c) = Inr pR"
      "fade G (Some 0) (transition c) (alpha c) (db_dev c) pA (Lambda_A c) = Inr att"
      "int (length att) = Lambda_A c"
      "loud G (sustain_level c) (transition c) (alpha c) (Lambda_D c) = Inr dec"
      "int (length dec) = Lambda_D c"
      "fade G None (transition c) (alpha c) (db_dev c) pR (Lambda_R c) = Inr rel"
      "int (length rel) = Lambda_R c"
    and env: "adsr_envelope G c sv = Inr (att @ dec @
       replicate (nat (Lambda c sv - Lambda_A c - Lambda_D c - Lambda_R c)) (a_S c) @
       map (\<lambda>x. x * a_S c) rel)"
    by blast
  define AD where "AD = att @ dec @
      replicate (nat (Lambda c sv - Lambda_A c - Lambda_D c - Lambda_R c))
        (10 powr (sustain_level c / 20)) @
      map (\<lambda>x. x * 10 powr (sustain_level c / 20)) rel"
  have env: "adsr_envelope G c sv = Inr AD"
    using env by (simp add: AD_def a_S_def)
  have len: "int (length AD) = Lambda c sv"
    using parts(4,6,8) assms(8) by (simp add: AD_def)
  have res: "adsr G c sv = (case sv of NoSignal \<Rightarrow> Inr AD | Signal s \<Rightarrow> Inr (map2 (*) s AD))"
  proof (cases sv)
    case NoSignal
    with env show ?thesis by (simp add: adsr_def on_return_def)
  next
    case (Signal s)
    then have "length s = length AD"
      using len by (simp add: Lambda_def)
    with env Signal show ?thesis
      by (simp add: adsr_def on_return_def np_mul_same_length)
  qed
  have "\<forall>r. adsr G c sv = Inr r \<longrightarrow> int (length r) = Lambda c sv"
    using res len by (cases sv) (auto simp: Lambda_def)
  with parts len res AD_def show ?thesis by blast
qed

text \<open>
  The hypotheses of C1 hold for the short linear envelope, whose ten samples are
  these.
\<close>

theorem adsr_valid_concatenation_witness:
  "returns_requested linear_generators (transition small_config) \<and>
   attack_duration small_config \<noteq> 0 \<and> release_duration small_config \<noteq> 0 \<and>
   \<not> is_py_list (to_zero small_config) \<and>
   0 \<le> Lambda_A small_config \<and> 0 \<le> Lambda_D small_config \<and> 0 \<le> Lambda_R small_config \<and>
   Lambda_A small_config + Lambda_D small_config + Lambda_R small_config
     \<le> Lambda small_config NoSignal \<and>
   Lambda small_config NoSignal = 10 \<and>
   (\<exists>r. adsr linear_generators small_config NoSignal = Inr r \<and> int (length r) = 10) \<and>
   adsr linear_generators small_config NoSignal =
     Inr ([0, 1] @ [1, 10 powr - (1 / 4)] @ replicate 4 (10 powr - (1 / 4)) @ [10 powr - (1 / 4), 0])"
proof -
  have h1: "returns_requested linear_generators (transition small_config)"
    using linear_generators_return_requested by (simp add: config_evals)
  have h2: "attack_duration small_config \<noteq> 0" and h3: "release_duration small_config \<noteq> 0"
    and h4: "\<not> is_py_list (to_zero small_config)"
    by (simp_all add: config_evals)
  have h5: "0 \<le> Lambda_A small_config" and h6: "0 \<le> Lambda_D small_config"
    and h7: "0 \<le> Lambda_R small_config"
    by (simp_all add: config_evals)
  have h8: "Lambda_A small_config + Lambda_D small_config + Lambda_R small_config
      \<le> Lambda small_config NoSignal"
    by (simp add: config_evals)
  have L: "Lambda small_config NoSignal = 10"
    by (simp add: config_evals)
  have v: "adsr linear_generators small_config NoSignal =
     Inr ([0, 1] @ [1, 10 powr - (1 / 4)] @ replicate 4 (10 powr - (1 / 4)) @ [10 powr - (1 / 4), 0])"
    by (simp add: config_evals adsr_evals)
  from adsr_valid_concatenation [OF h1 h2 h3 h4 h5 h6 h7 h8]
  have "\<forall>r. adsr linear_generators small_config NoSignal = Inr r \<longrightarrow> int (length r) = 10"
    unfolding L by blast
  with v have "\<exists>r. adsr linear_generators small_config NoSignal = Inr r \<and> int (length r) = 10"
    by blast
  with h1 h2 h3 h4 h5 h6 h7 h8 L v show ?thesis by blast
qed

text \<open>
  C1 as stated fails: with \<open>attack_duration=0\<close> and every other parameter at its
  default the counts are 0, 882 and 2205 against 88200, and the call raises at
  \<open>to_zero / attack_duration\<close>, before any generator runs.
\<close>

theorem adsr_valid_concatenation_counterexample:
  "Lambda_A (default_config\<lparr>attack_duration := 0\<rparr>) +
   Lambda_D (default_config\<lparr>attack_duration := 0\<rparr>) +
   Lambda_R (default_config\<lparr>attack_duration := 0\<rparr>)
     \<le> Lambda (default_config\<lparr>attack_duration := 0\<rparr>) NoSignal \<and>
   adsr linear_generators (default_config\<lparr>attack_duration := 0\<rparr>) NoSignal
     = Inl ZeroDivisionError"
  by (simp add: config_evals adsr_def adsr_envelope_def on_return_def py_truediv_def)

text \<open>
  Claim C2. When the attack, decay and release counts together exceed \<open>Lambda\<close>,
  \<open>adsr\<close> raises and returns no buffer, whatever the generators do. When the
  statements before it return, the error is the \<open>ValueError\<close> of \<open>np.ones\<close> on
  the negative remainder.
\<close>

theorem adsr_negative_remainder:
  assumes "Lambda c sv < Lambda_A c + Lambda_D c + Lambda_R c"
  shows "(\<exists>e. adsr G c sv = Inl e) \<and>
    (\<forall>pA att dec.
       py_truediv (to_zero c) (attack_duration c) = Inr pA \<and>
       fade G (Some 0) (transition c) (alpha c) (db_dev c) pA (Lambda_A c) = Inr att \<and>
       loud G (sustain_level c) (transition c) (alpha c) (Lambda_D c) = Inr dec \<longrightarrow>
       adsr G c sv = Inl NegativeDimensions)"
proof -
  have neg: "np_ones (Lambda c sv - (Lambda_A c + Lambda_R c + Lambda_D c)) = Inl NegativeDimensions"
    using assms by (simp add: np_ones_def)
  have "\<exists>e. adsr_envelope G c sv = Inl e"
    unfolding adsr_envelope_def neg by (auto simp: on_return_def split: sum.splits)
  then have "\<exists>e. adsr G c sv = Inl e"
    by (auto simp: adsr_def on_return_def)
  moreover have "adsr G c sv = Inl NegativeDimensions"
    if "py_truediv (to_zero c) (attack_duration c) = Inr pA"
      and "fade G (Some 0) (transition c) (alpha c) (db_dev c) pA (Lambda_A c) = Inr att"
      and "loud G (sustain_level c) (transition c) (alpha c) (Lambda_D c) = Inr dec"
    for pA att dec
    using that by (simp add: adsr_def adsr_envelope_def neg on_return_def)
  ultimately show ?thesis by blast
qed

text \<open>
  The configuration of the claim: 44100 samples against three segments of
  132300. With the linear family the error is the negative dimension.
\<close>

theorem adsr_negative_remainder_witness:
  "Lambda overlong_config NoSignal = 44100 \<and> Lambda_A overlong_config = 132300 \<and>
   Lambda_D overlong_config = 132300 \<and> Lambda_R overlong_config = 132300 \<and>
   Lambda overlong_config NoSignal
     < Lambda_A overlong_config + Lambda_D overlong_config + Lambda_R overlong_config \<and>
   (\<exists>e. adsr linear_generators overlong_config NoSignal = Inl e) \<and>
   adsr linear_generators (overlong_config\<lparr>transition := ''linear''\<rparr>) NoSignal
     = Inl NegativeDimensions"
proof -
  have c: "Lambda overlong_config NoSignal = 44100" "Lambda_A overlong_config = 132300"
    "Lambda_D overlong_config = 132300" "Lambda_R overlong_config = 132300"
    by (simp_all add: overlong_config_def config_evals)
  then have h: "Lambda overlong_config NoSignal
     < Lambda_A overlong_config + Lambda_D overlong_config + Lambda_R overlong_config"
    by simp
  have h': "Lambda (overlong_config\<lparr>transition := ''linear''\<rparr>) NoSignal
     < Lambda_A (overlong_config\<lparr>transition := ''linear''\<rparr>) +
       Lambda_D (overlong_config\<lparr>transition := ''linear''\<rparr>) +
       Lambda_R (overlong_config\<lparr>transition := ''linear''\<rparr>)"
    by (simp add: overlong_config_def config_evals)
  have "adsr linear_generators (overlong_config\<lparr>transition := ''linear''\<rparr>) NoSignal
     = Inl NegativeDimensions"
    using adsr_negative_remainder [OF h', of linear_generators]
    by (simp add: overlong_config_def default_config_def py_truediv_def linear_generators_def
        fade_linear_def loud_linear_def Lambda_A_def Lambda_D_def py_int_def)
  with c h adsr_negative_remainder [OF h, of linear_generators] show ?thesis by blast
qed

text \<open>
  Claim C3. For a non-empty signal \<open>s\<close>, \<open>adsr\<close> with \<open>sonic_vector=s\<close> is the
  element-wise product of \<open>s\<close> and the envelope that \<open>adsr\<close> computes alone for
  \<open>number_of_samples=len(s)\<close>: it raises when that call raises, and otherwise
  the envelope and the product have the length of \<open>s\<close>. The generators are taken
  to return the counts they are asked for, which are taken not to be negative.
\<close>

theorem adsr_signal_is_product:
  assumes "s \<noteq> []" and "returns_requested G (transition c)"
    and "0 \<le> Lambda_A c" and "0 \<le> Lambda_D c" and "0 \<le> Lambda_R c"
  shows "adsr G c (Signal s) =
      on_return (adsr G (c\<lparr>number_of_samples := int (length s)\<rparr>) NoSignal)
        (\<lambda>env. Inr (map2 (*) s env)) \<and>
    (\<forall>env. adsr G (c\<lparr>number_of_samples := int (length s)\<rparr>) NoSignal = Inr env \<longrightarrow>
       length env = length s \<and> length (map2 (*) s env) = length s)"
proof -
  let ?c = "c\<lparr>number_of_samples := int (length s)\<rparr>"
  have same: "adsr_envelope G ?c NoSignal = adsr_envelope G c (Signal s)"
    using assms(1) by (rule envelope_of_signal_length)
  have alone: "adsr G ?c NoSignal = adsr_envelope G c (Signal s)"
    by (cases "adsr_envelope G c (Signal s)") (simp_all add: adsr_def same on_return_def)
  have len: "length env = length s" if "adsr_envelope G c (Signal s) = Inr env" for env
    using envelope_length [OF assms(2-5) that] by (simp add: Lambda_def)
  have "adsr G c (Signal s) =
      on_return (adsr_envelope G c (Signal s)) (\<lambda>env. Inr (map2 (*) s env))"
  proof (cases "adsr_envelope G c (Signal s)")
    case (Inl e)
    then show ?thesis by (simp add: adsr_def on_return_def)
  next
    case (Inr env)
    with len [OF Inr] show ?thesis
      by (simp add: adsr_def on_return_def np_mul_same_length)
  qed
  with alone len show ?thesis by simp
qed

text \<open>
  A signal of ten samples on the short linear envelope.
\<close>

theorem adsr_signal_is_product_witness:
  "ramp_signal \<noteq> [] \<and> returns_requested linear_generators (transition small_config) \<and>
   0 \<le> Lambda_A small_config \<and> 0 \<le> Lambda_D small_config \<and> 0 \<le> Lambda_R small_config \<and>
   adsr linear_generators (small_config\<lparr>number_of_samples := int (length ramp_signal)\<rparr>) NoSignal
     = Inr ([0, 1] @ [1, 10 powr - (1 / 4)] @ replicate 4 (10 powr - (1 / 4)) @
            [10 powr - (1 / 4), 0]) \<and>
   adsr linear_generators small_config (Signal ramp_signal)
     = Inr (map2 (*) ramp_signal
             ([0, 1] @ [1, 10 powr - (1 / 4)] @ replicate 4 (10 powr - (1 / 4)) @
              [10 powr - (1 / 4), 0]))"
proof -
  have h1: "ramp_signal \<noteq> []" by (simp add: ramp_signal_def)
  have h2: "returns_requested linear_generators (transition small_config)"
    using linear_generators_return_requested by (simp add: config_evals)
  have h3: "0 \<le> Lambda_A small_config" and h4: "0 \<le> Lambda_D small_config"
    and h5: "0 \<le> Lambda_R small_config"
    by (simp_all add: config_evals)
  have v: "adsr linear_generators (small_config\<lparr>number_of_samples := int (length ramp_signal)\<rparr>)
      NoSignal
     = Inr ([0, 1] @ [1, 10 powr - (1 / 4)] @ replicate 4 (10 powr - (1 / 4)) @
            [10 powr - (1 / 4), 0])"
    by (simp add: ramp_signal_def config_evals adsr_evals)
  from adsr_signal_is_product [OF h1 h2 h3 h4 h5]
  have "adsr linear_generators small_config (Signal ramp_signal) =
      on_return (adsr linear_generators
          (small_config\<lparr>number_of_samples := int (length ramp_signal)\<rparr>) NoSignal)
        (\<lambda>env. Inr (map2 (*) ramp_signal env))"
    by blast
  then have "adsr linear_generators small_config (Signal ramp_signal)
     = Inr (map2 (*) ramp_signal
             ([0, 1] @ [1, 10 powr - (1 / 4)] @ replicate 4 (10 powr - (1 / 4)) @
              [10 powr - (1 / 4), 0]))"
    unfolding v by (simp add: on_return_def)
  with h1 h2 h3 h4 h5 v show ?thesis by blast
qed

subsection \<open>Lengths\<close>

text \<open>
  Claim C4, as the code has it. \<open>Lambda\<close> is the length of the signal when one
  is given, else \<open>number_of_samples\<close> when that is not zero, else
  \<open>envelope_duration * sample_rate\<close> with its fraction dropped; the attack, decay
  and release counts are \<open>duration * sample_rate / 1000\<close> with the fraction
  dropped. The code calls \<open>int\<close>, which truncates toward zero; it does not
  round.
\<close>

theorem adsr_lengths_truncated:
  "Lambda c (Signal s) = int (length s) \<and>
   (if number_of_samples c \<noteq> 0 then Lambda c NoSignal = number_of_samples c
    else truncation_of (envelope_duration c * real_of_int (sample_rate c)) (Lambda c NoSignal)) \<and>
   truncation_of (attack_duration c * real_of_int (sample_rate c) / 1000) (Lambda_A c) \<and>
   truncation_of (decay_duration c * real_of_int (sample_rate c) / 1000) (Lambda_D c) \<and>
   truncation_of (release_duration c * real_of_int (sample_rate c) / 1000) (Lambda_R c)"
  using py_int_truncation [of "envelope_duration c * real_of_int (sample_rate c)"]
    py_int_truncation [of "attack_duration c * real_of_int (sample_rate c) * 0.001"]
    py_int_truncation [of "decay_duration c * real_of_int (sample_rate c) * 0.001"]
    py_int_truncation [of "release_duration c * real_of_int (sample_rate c) * 0.001"]
  by (simp add: Lambda_def Lambda_A_def Lambda_D_def Lambda_R_def)

text \<open>
  C4 as stated fails: a decay of 0.125 ms at 44100 Hz is 5.5125 samples, which
  the code makes 5 and rounding makes 6; 1.9 s at 1 Hz is 1 sample, not 2.
\<close>

theorem adsr_lengths_rounded_counterexample:
  "Lambda_D (default_config\<lparr>decay_duration := 1 / 8\<rparr>) = 5 \<and>
   round (decay_duration (default_config\<lparr>decay_duration := 1 / 8\<rparr>) *
          real_of_int (sample_rate (default_config\<lparr>decay_duration := 1 / 8\<rparr>)) / 1000) = 6 \<and>
   Lambda (default_config\<lparr>envelope_duration := 19 / 10, sample_rate := 1\<rparr>) NoSignal = 1 \<and>
   round (envelope_duration (default_config\<lparr>envelope_duration := 19 / 10, sample_rate := 1\<rparr>) *
          real_of_int (sample_rate (default_config\<lparr>envelope_duration := 19 / 10, sample_rate := 1\<rparr>)))
     = 2"
  by (simp add: config_evals round_def)

subsection \<open>Stereo\<close>

text \<open>
  Claim C5. For two signals of equal length, \<open>adsr_stereo\<close> returns two rows:
  row 0 is \<open>adsr\<close> of the first signal and row 1 is \<open>adsr\<close> of the second, with
  the same configuration; it raises when either call raises. With no signal,
  both rows are the envelope \<open>adsr\<close> returns for the configuration.
\<close>

theorem adsr_stereo_rows:
  "(length sig1 = length sig2 \<longrightarrow>
      adsr_stereo G c (StereoRows (Signal sig1 # Signal sig2 # others)) =
        on_return (adsr G c (Signal sig1)) (\<lambda>row0.
        on_return (adsr G c (Signal sig2)) (\<lambda>row1. Inr [row0, row1]))) \<and>
   adsr_stereo G c StereoNone = on_return (adsr G c NoSignal) (\<lambda>row. Inr [row, row])"
proof (intro conjI impI)
  assume eq: "length sig1 = length sig2"
  show "adsr_stereo G c (StereoRows (Signal sig1 # Signal sig2 # others)) =
        on_return (adsr G c (Signal sig1)) (\<lambda>row0.
        on_return (adsr G c (Signal sig2)) (\<lambda>row1. Inr [row0, row1]))"
  proof (cases "adsr G c (Signal sig1)")
    case (Inl e)
    then show ?thesis by (simp add: adsr_stereo_def stereo_rows_def on_return_def)
  next
    case r1: (Inr r1)
    show ?thesis
    proof (cases "adsr G c (Signal sig2)")
      case (Inl e)
      with r1 show ?thesis by (simp add: adsr_stereo_def stereo_rows_def on_return_def)
    next
      case r2: (Inr r2)
      from adsr_same_length [OF eq r1 r2] r1 r2 show ?thesis
        by (simp add: adsr_stereo_def stereo_rows_def on_return_def np_vstack2_def)
    qed
  qed
next
  show "adsr_stereo G c StereoNone = on_return (adsr G c NoSignal) (\<lambda>row. Inr [row, row])"
    by (cases "adsr G c NoSignal")
      (simp_all add: adsr_stereo_def stereo_rows_def on_return_def np_vstack2_def)
qed

text \<open>
  A rising and a falling signal of ten samples on the short linear envelope.
\<close>

theorem adsr_stereo_rows_witness:
  "length ramp_signal = length falling_signal \<and>
   adsr linear_generators small_config (Signal ramp_signal) =
     Inr (map2 (*) ramp_signal small_envelope) \<and>
   adsr linear_generators small_config (Signal falling_signal) =
     Inr (map2 (*) falling_signal small_envelope) \<and>
   adsr_stereo linear_generators small_config (StereoRows [Signal ramp_signal, Signal falling_signal]) =
     Inr [map2 (*) ramp_signal small_envelope, map2 (*) falling_signal small_envelope]"
proof -
  have h: "length ramp_signal = length falling_signal"
    by (simp add: ramp_signal_def falling_signal_def)
  have l: "adsr linear_generators small_config (Signal ramp_signal) =
     Inr (map2 (*) ramp_signal small_envelope)"
    by (simp add: ramp_signal_def small_envelope_def config_evals adsr_evals)
  have r: "adsr linear_generators small_config (Signal falling_signal) =
     Inr (map2 (*) falling_signal small_envelope)"
    by (simp add: falling_signal_def small_envelope_def config_evals adsr_evals)
  from adsr_stereo_rows [of ramp_signal falling_signal linear_generators small_config "[]"] h
  have "adsr_stereo linear_generators small_config
      (StereoRows [Signal ramp_signal, Signal falling_signal]) =
        on_return (adsr linear_generators small_config (Signal ramp_signal)) (\<lambda>row0.
        on_return (adsr linear_generators small_config (Signal falling_signal))
          (\<lambda>row1. Inr [row0, row1]))"
    by blast
  with h l r show ?thesis by (simp add: on_return_def)
qed

subsection \<open>Degenerate and invalid inputs\<close>

text \<open>
  Claim C6, as the code has it. A request for no samples (no signal,
  \<open>number_of_samples=0\<close>, an \<open>envelope_duration\<close> that truncates to 0 samples)
  returns the empty buffer when the attack, decay and release counts are zero
  too, the attack and release durations themselves are not zero, and the
  generators return what they are asked for.
\<close>

theorem adsr_zero_length:
  assumes "returns_requested G (transition c)"
    and "number_of_samples c = 0"
    and "py_int (envelope_duration c * real_of_int (sample_rate c)) = 0"
    and "Lambda_A c = 0" and "Lambda_D c = 0" and "Lambda_R c = 0"
    and "attack_duration c \<noteq> 0" and "release_duration c \<noteq> 0"
    and "\<not> is_py_list (to_zero c)"
  shows "adsr G c NoSignal = Inr []"
proof -
  have L: "Lambda c NoSignal = 0"
    using assms(2,3) by (simp add: Lambda_def)
  from valid_envelope [of G c NoSignal] assms L
  have "adsr_envelope G c NoSignal = Inr []"
    by auto
  then show ?thesis by (simp add: adsr_def on_return_def)
qed

text \<open>
  Half a second at 1 Hz with the default segment durations: every count is zero.
\<close>

theorem adsr_zero_length_witness:
  "returns_requested linear_generators (transition zero_length_config) \<and>
   number_of_samples zero_length_config = 0 \<and>
   py_int (envelope_duration zero_length_config * real_of_int (sample_rate zero_length_config)) = 0 \<and>
   Lambda_A zero_length_config = 0 \<and> Lambda_D zero_length_config = 0 \<and>
   Lambda_R zero_length_config = 0 \<and>
   attack_duration zero_length_config \<noteq> 0 \<and> release_duration zero_length_config \<noteq> 0 \<and>
   \<not> is_py_list (to_zero zero_length_config) \<and>
   adsr linear_generators zero_length_config NoSignal = Inr []"
proof -
  have h1: "returns_requested linear_generators (transition zero_length_config)"
    using linear_generators_return_requested by (simp add: zero_length_config_def config_evals)
  have h2: "number_of_samples zero_length_config = 0"
    and h3: "py_int (envelope_duration zero_length_config *
        real_of_int (sample_rate zero_length_config)) = 0"
    and h4: "Lambda_A zero_length_config = 0" and h5: "Lambda_D zero_length_config = 0"
    and h6: "Lambda_R zero_length_config = 0"
    and h7: "attack_duration zero_length_config \<noteq> 0"
    and h8: "release_duration zero_length_config \<noteq> 0"
    and h9: "\<not> is_py_list (to_zero zero_length_config)"
    by (simp_all add: zero_length_config_def config_evals)
  from adsr_zero_length [OF h1 h2 h3 h4 h5 h6 h7 h8 h9] h1 h2 h3 h4 h5 h6 h7 h8 h9
  show ?thesis by blast
qed

text \<open>
  C6 as stated fails: with \<open>envelope_duration=0\<close> and the default 20, 20 and 50
  ms the segments need 882 + 882 + 2205 samples of the 0 requested, and the call
  raises on the negative remainder, as C2 says it must.
\<close>

theorem adsr_zero_length_counterexample:
  "number_of_samples (default_config\<lparr>envelope_duration := 0, transition := ''linear''\<rparr>) = 0 \<and>
   py_int (envelope_duration (default_config\<lparr>envelope_duration := 0, transition := ''linear''\<rparr>) *
     real_of_int (sample_rate (default_config\<lparr>envelope_duration := 0, transition := ''linear''\<rparr>)))
     = 0 \<and>
   adsr linear_generators (default_config\<lparr>envelope_duration := 0, transition := ''linear''\<rparr>)
     NoSignal = Inl NegativeDimensions"
  by (simp add: config_evals adsr_def adsr_envelope_def on_return_def py_truediv_def np_ones_def
      linear_generators_def fade_linear_def loud_linear_def)

text \<open>
  Claim C7 at lists of three, two and two values: \<open>adsr\<close> resolves nothing per
  segment. It divides the whole of \<open>to_zero\<close> by the attack duration, which for
  a list raises \<open>TypeError\<close>, whatever the generators and the signal.
\<close>

theorem adsr_array_like_parameters:
  "adsr G (default_config\<lparr>alpha := PyList [1, 1, 1], db_dev := PyList [- 80, - 80],
      to_zero := PyList [1, 1]\<rparr>) sv = Inl TypeError"
  by (simp add: adsr_def adsr_envelope_def on_return_def py_truediv_def default_config_def)

text \<open>
  Claim C8, as the code has it. \<open>adsr\<close> has no check of the sample rate or of
  the sign of a duration. It returns a buffer exactly when both divisions of
  \<open>to_zero\<close> return, the three generator calls return, the three counts sum to
  at most \<open>Lambda\<close>, and a given signal broadcasts against the envelope; in every
  other case it raises.
\<close>

theorem adsr_returns_iff:
  "(\<exists>r. adsr G c sv = Inr r) \<longleftrightarrow>
     (\<exists>pA att dec pR rel.
        py_truediv (to_zero c) (attack_duration c) = Inr pA \<and>
        fade G (Some 0) (transition c) (alpha c) (db_dev c) pA (Lambda_A c) = Inr att \<and>
        loud G (sustain_level c) (transition c) (alpha c) (Lambda_D c) = Inr dec \<and>
        Lambda_A c + Lambda_R c + Lambda_D c \<le> Lambda c sv \<and>
        py_truediv (to_zero c) (release_duration c) = Inr pR \<and>
        fade G None (transition c) (alpha c) (db_dev c) pR (Lambda_R c) = Inr rel \<and>
        (case sv of
           NoSignal \<Rightarrow> True
         | Signal s \<Rightarrow>
             broadcastable (length s)
               (length att + length dec +
                nat (Lambda c sv - (Lambda_A c + Lambda_R c + Lambda_D c)) + length rel)))"
  (is "?L \<longleftrightarrow> ?R")
proof
  assume ?L
  then obtain r AD where AD: "adsr_envelope G c sv = Inr AD"
    and r: "(case sv of Signal s \<Rightarrow> np_mul s AD | NoSignal \<Rightarrow> Inr AD) = Inr r"
    by (auto simp: adsr_def on_return_Inr_iff)
  from AD obtain pA att dec pR rel where parts:
    "py_truediv (to_zero c) (attack_duration c) = Inr pA"
    "fade G (Some 0) (transition c) (alpha c) (db_dev c) pA (Lambda_A c) = Inr att"
    "loud G (sustain_level c) (transition c) (alpha c) (Lambda_D c) = Inr dec"
    "Lambda_A c + Lambda_R c + Lambda_D c \<le> Lambda c sv"
    "py_truediv (to_zero c) (release_duration c) = Inr pR"
    "fade G None (transition c) (alpha c) (db_dev c) pR (Lambda_R c) = Inr rel"
    and form: "AD = att @ dec @
         replicate (nat (Lambda c sv - (Lambda_A c + Lambda_R c + Lambda_D c))) (a_S c) @
         map (\<lambda>x. x * a_S c) rel"
    unfolding adsr_envelope_Inr_iff by blast
  have len: "length AD = length att + length dec +
      nat (Lambda c sv - (Lambda_A c + Lambda_R c + Lambda_D c)) + length rel"
    by (simp add: form)
  have shape: "case sv of
      NoSignal \<Rightarrow> True
    | Signal s \<Rightarrow>
        broadcastable (length s)
          (length att + length dec +
           nat (Lambda c sv - (Lambda_A c + Lambda_R c + Lambda_D c)) + length rel)"
  proof (cases sv)
    case NoSignal
    then show ?thesis by simp
  next
    case (Signal s)
    with r have "\<exists>r. np_mul s AD = Inr r" by auto
    then have "broadcastable (length s) (length AD)"
      by (simp only: np_mul_returns_iff)
    then show ?thesis
      unfolding len Signal by simp
  qed
  from parts shape show ?R by blast
next
  assume ?R
  then obtain pA att dec pR rel where parts:
    "py_truediv (to_zero c) (attack_duration c) = Inr pA"
    "fade G (Some 0) (transition c) (alpha c) (db_dev c) pA (Lambda_A c) = Inr att"
    "loud G (sustain_level c) (transition c) (alpha c) (Lambda_D c) = Inr dec"
    "Lambda_A c + Lambda_R c + Lambda_D c \<le> Lambda c sv"
    "py_truediv (to_zero c) (release_duration c) = Inr pR"
    "fade G None (transition c) (alpha c) (db_dev c) pR (Lambda_R c) = Inr rel"
    and shape: "case sv of
           NoSignal \<Rightarrow> True
         | Signal s \<Rightarrow>
             broadcastable (length s)
               (length att + length dec +
                nat (Lambda c sv - (Lambda_A c + Lambda_R c + Lambda_D c)) + length rel)"
    by blast
  define AD where "AD = att @ dec @
         replicate (nat (Lambda c sv - (Lambda_A c + Lambda_R c + Lambda_D c))) (a_S c) @
         map (\<lambda>x. x * a_S c) rel"
  have AD: "adsr_envelope G c sv = Inr AD"
    unfolding adsr_envelope_Inr_iff AD_def using parts by blast
  have len: "length AD = length att + length dec +
      nat (Lambda c sv - (Lambda_A c + Lambda_R c + Lambda_D c)) + length rel"
    by (simp add: AD_def)
  show ?L
  proof (cases sv)
    case NoSignal
    with AD show ?thesis by (simp add: adsr_def on_return_def)
  next
    case (Signal s)
    with shape have "broadcastable (length s) (length AD)"
      unfolding len by simp
    then obtain r where "np_mul s AD = Inr r"
      using np_mul_returns_iff by blast
    with AD Signal show ?thesis by (simp add: adsr_def on_return_def)
  qed
qed

text \<open>
  C8 as stated fails: a sample rate of 0 returns the empty buffer; a negative
  \<open>envelope_duration\<close> is not even read when a signal is given; a negative
  decay of half a sample truncates to no decay at all.
\<close>

theorem adsr_returns_iff_counterexample:
  "sample_rate (small_config\<lparr>sample_rate := 0\<rparr>) \<le> 0 \<and>
   adsr linear_generators (small_config\<lparr>sample_rate := 0\<rparr>) NoSignal = Inr [] \<and>
   envelope_duration (small_config\<lparr>envelope_duration := - 1\<rparr>) < 0 \<and>
   adsr linear_generators (small_config\<lparr>envelope_duration := - 1\<rparr>) (Signal ramp_signal) =
     Inr (map2 (*) ramp_signal small_envelope) \<and>
   decay_duration (small_config\<lparr>decay_duration := - 1 / 2\<rparr>) < 0 \<and>
   adsr linear_generators (small_config\<lparr>decay_duration := - 1 / 2\<rparr>) NoSignal =
     Inr ([0, 1] @ replicate 6 (10 powr - (1 / 4)) @ [10 powr - (1 / 4), 0])"
  by (simp add: ramp_signal_def small_envelope_def config_evals adsr_evals ceiling_def)

subsection \<open>Release\<close>

text \<open>
  Claim C9. In every envelope that \<open>adsr\<close> assembles, the last segment is what
  \<open>fade\<close> returns for the release count, with \<open>fade_out\<close> left to its default,
  each sample multiplied by the sustain amplitude \<open>10^(sustain_level/20)\<close>.
\<close>

theorem adsr_release_scaled:
  assumes "adsr_envelope G c sv = Inr AD"
  shows "\<exists>pR rel att dec.
      py_truediv (to_zero c) (release_duration c) = Inr pR \<and>
      fade G None (transition c) (alpha c) (db_dev c) pR (Lambda_R c) = Inr rel \<and>
      AD = att @ dec @
           replicate (nat (Lambda c sv - (Lambda_A c + Lambda_R c + Lambda_D c)))
             (10 powr (sustain_level c / 20)) @
           map (\<lambda>x. x * 10 powr (sustain_level c / 20)) rel \<and>
      drop (length AD - length rel) AD = map (\<lambda>x. x * 10 powr (sustain_level c / 20)) rel"
proof -
  from assms obtain pA att dec pR rel where
    "py_truediv (to_zero c) (release_duration c) = Inr pR"
    "fade G None (transition c) (alpha c) (db_dev c) pR (Lambda_R c) = Inr rel"
    and form: "AD = att @ dec @
         replicate (nat (Lambda c sv - (Lambda_A c + Lambda_R c + Lambda_D c))) (a_S c) @
         map (\<lambda>x. x * a_S c) rel"
    unfolding adsr_envelope_Inr_iff by blast
  moreover from form
  have "drop (length AD - length rel) AD = map (\<lambda>x. x * a_S c) rel"
    by simp
  ultimately show ?thesis
    unfolding a_S_def by blast
qed

text \<open>
  On the short linear envelope the fade-out is 1, 0 and the release is the
  sustain amplitude, then 0.
\<close>

theorem adsr_release_scaled_witness:
  "adsr_envelope linear_generators small_config NoSignal = Inr small_envelope \<and>
   fade linear_generators None (transition small_config) (alpha small_config)
     (db_dev small_config) (PercScalar (1 / 2)) (Lambda_R small_config) = Inr [1, 0] \<and>
   py_truediv (to_zero small_config) (release_duration small_config) = Inr (PercScalar (1 / 2)) \<and>
   drop (length small_envelope - length [1, 0 :: real]) small_envelope
     = map (\<lambda>x. x * 10 powr (sustain_level small_config / 20)) [1, 0] \<and>
   drop 8 small_envelope = [10 powr - (1 / 4), 0]"
proof -
  have h: "adsr_envelope linear_generators small_config NoSignal = Inr small_envelope"
    by (simp add: small_envelope_def config_evals adsr_evals)
  have p: "py_truediv (to_zero small_config) (release_duration small_config)
      = Inr (PercScalar (1 / 2))"
    by (simp add: config_evals py_truediv_def)
  have f: "fade linear_generators None (transition small_config) (alpha small_config)
     (db_dev small_config) (PercScalar (1 / 2)) (Lambda_R small_config) = Inr [1, 0]"
    by (simp add: config_evals adsr_evals)
  from adsr_release_scaled [OF h] p f
  have "drop (length small_envelope - length [1, 0 :: real]) small_envelope
     = map (\<lambda>x. x * 10 powr (sustain_level small_config / 20)) [1, 0]"
    by auto
  moreover have "drop 8 small_envelope = [10 powr - (1 / 4), 0]"
    by (simp add: small_envelope_def)
  ultimately show ?thesis using h p f by blast
qed

text \<open>
  Claim C10, as the code has it. With \<open>to_zero\<close> a number, a call whose attack
  or release duration is 0 raises: at once with \<open>ZeroDivisionError\<close> when the
  attack duration is 0, and otherwise at the latest when the release division
  raises it.
\<close>

theorem adsr_zero_duration_fails:
  assumes "to_zero c = Scalar t"
    and "attack_duration c = 0 \<or> release_duration c = 0"
  shows "(\<exists>e. adsr G c sv = Inl e) \<and>
    (if attack_duration c = 0 then adsr G c sv = Inl ZeroDivisionError
     else py_truediv (to_zero c) (release_duration c) = Inl ZeroDivisionError)"
proof (cases "attack_duration c = 0")
  case True
  with assms(1) show ?thesis
    by (simp add: adsr_def adsr_envelope_def on_return_def py_truediv_def)
next
  case False
  with assms(2) have R: "release_duration c = 0" by simp
  with assms(1) have div: "py_truediv (to_zero c) (release_duration c) = Inl ZeroDivisionError"
    by (simp add: py_truediv_def)
  have "\<exists>e. adsr_envelope G c sv = Inl e"
    unfolding adsr_envelope_def div by (auto simp: on_return_def split: sum.splits)
  then have "\<exists>e. adsr G c sv = Inl e"
    by (auto simp: adsr_def on_return_def)
  with False div show ?thesis by simp
qed

text \<open>
  Both durations in turn on the short linear envelope.
\<close>

theorem adsr_zero_duration_fails_witness:
  "to_zero (small_config\<lparr>release_duration := 0\<rparr>) = Scalar 1 \<and>
   release_duration (small_config\<lparr>release_duration := 0\<rparr>) = 0 \<and>
   adsr linear_generators (small_config\<lparr>release_duration := 0\<rparr>) NoSignal
     = Inl ZeroDivisionError \<and>
   to_zero (small_config\<lparr>attack_duration := 0\<rparr>) = Scalar 1 \<and>
   attack_duration (small_config\<lparr>attack_duration := 0\<rparr>) = 0 \<and>
   adsr linear_generators (small_config\<lparr>attack_duration := 0\<rparr>) NoSignal
     = Inl ZeroDivisionError"
proof -
  have a: "to_zero (small_config\<lparr>attack_duration := 0\<rparr>) = Scalar 1"
    "attack_duration (small_config\<lparr>attack_duration := 0\<rparr>) = 0"
    and r: "to_zero (small_config\<lparr>release_duration := 0\<rparr>) = Scalar 1"
    "release_duration (small_config\<lparr>release_duration := 0\<rparr>) = 0"
    by (simp_all add: config_evals)
  have "adsr linear_generators (small_config\<lparr>attack_duration := 0\<rparr>) NoSignal
     = Inl ZeroDivisionError"
    using adsr_zero_duration_fails [OF a(1), of linear_generators NoSignal] a(2) by simp
  moreover have "adsr linear_generators (small_config\<lparr>release_duration := 0\<rparr>) NoSignal
     = Inl ZeroDivisionError"
    by (simp add: config_evals adsr_evals)
  ultimately show ?thesis using a r by blast
qed

text \<open>
  C10 as stated fails when \<open>to_zero\<close> is a numpy array: the division by a zero
  attack duration gives non-finite entries and does not raise, and in the linear
  family, which ignores \<open>to_zero\<close>, the call returns an envelope with no attack.
\<close>

theorem adsr_zero_duration_fails_counterexample:
  "attack_duration (small_config\<lparr>attack_duration := 0, to_zero := NdArray [1, 1]\<rparr>) = 0 \<and>
   py_truediv (to_zero (small_config\<lparr>attack_duration := 0, to_zero := NdArray [1, 1]\<rparr>))
     (attack_duration (small_config\<lparr>attack_duration := 0, to_zero := NdArray [1, 1]\<rparr>))
     = Inr (PercArray [NonFinite, NonFinite]) \<and>
   adsr linear_generators (small_config\<lparr>attack_duration := 0, to_zero := NdArray [1, 1]\<rparr>) NoSignal
     = Inr ([1, 10 powr - (1 / 4)] @ replicate 6 (10 powr - (1 / 4)) @ [10 powr - (1 / 4), 0])"
  by (simp add: config_evals adsr_evals)

end
